theory Spec2Isabelle
  imports Main "HOL-Library.Word" "HOL-Library.Signed_Division"
begin

section \<open>Machine integers\<close>

text \<open>
  \<open>int64_t\<close> is a 64-bit word read in two's complement by \<open>sint\<close>. C++ division and
  remainder on signed integers truncate towards zero; on \<open>int\<close> that is \<open>sdiv\<close> and
  \<open>smod\<close>, and the result is written back into 64 bits.
\<close>

type_synonym int64 = "64 word"

definition div64 :: "int64 \<Rightarrow> int64 \<Rightarrow> int64" where
  "div64 a b = word_of_int (sint a sdiv sint b)"

definition rem64 :: "int64 \<Rightarrow> int64 \<Rightarrow> int64" where
  "rem64 a b = word_of_int (sint a smod sint b)"

section \<open>Element types and vector types\<close>

text \<open>
  The scalar types of the IR that may be the element of a vector: the floating-point
  types, integers of a width and a signedness, and the index type.
\<close>

datatype signedness = Signless | Signed | Unsigned

datatype mlir_type =
    Float16Type
  | BFloat16Type
  | Float32Type
  | Float64Type
  | Float8E4M3FNUZType
  | Float8E5M2FNUZType
  | IntegerType nat signedness
  | IndexType

fun isF16 :: "mlir_type \<Rightarrow> bool" where
  "isF16 Float16Type = True"
| "isF16 _ = False"

fun isBF16 :: "mlir_type \<Rightarrow> bool" where
  "isBF16 BFloat16Type = True"
| "isBF16 _ = False"

text \<open>\<open>Type::isInteger(width)\<close>: an integer type of that width, of any signedness.\<close>

fun isInteger :: "mlir_type \<Rightarrow> nat \<Rightarrow> bool" where
  "isInteger (IntegerType w s) width = (w = width)"
| "isInteger _ width = False"

definition getI32Type :: mlir_type where
  "getI32Type = IntegerType 32 Signless"

definition getF32Type :: mlir_type where
  "getF32Type = Float32Type"

record VectorType =
  shape :: "int64 list"
  elementType :: mlir_type

definition VectorType_get :: "int64 list \<Rightarrow> mlir_type \<Rightarrow> VectorType" where
  "VectorType_get dims ty = \<lparr>shape = dims, elementType = ty\<rparr>"

section \<open>The WMMA instruction group\<close>

text \<open>The three ROCDL operations \<open>select\<close> can name.\<close>

datatype rocdl_op =
    wmma_f32_16x16x16_f16
  | wmma_f32_16x16x16_bf16
  | wmma_i32_16x16x16_iu8

record WmmaInsn =
  insn :: string
  inputLen :: int64
  outLen :: int64
  outStride :: int64
  mRepeats :: int64
  nRepeats :: int64
  argTypeA :: VectorType
  argTypeB :: VectorType
  retType :: VectorType

definition getRetType :: "mlir_type \<Rightarrow> mlir_type" where
  "getRetType inputType = (if isInteger inputType 8 then getI32Type else getF32Type)"

definition isCoherentWithK :: "WmmaInsn \<Rightarrow> int64 \<Rightarrow> int64 \<Rightarrow> bool" where
  "isCoherentWithK d kpack kPerBlock =
     (if kPerBlock * kpack <s inputLen d then False else True)"

text \<open>
  \<open>WmmaInsn::select\<close>. \<open>failure()\<close> is \<open>None\<close>. The names of the ROCDL operations
  belong to the ROCDL dialect and are taken as the parameter \<open>getOperationName\<close>.
\<close>

definition select ::
  "(rocdl_op \<Rightarrow> string) \<Rightarrow> mlir_type \<Rightarrow> mlir_type \<Rightarrow> int64 \<Rightarrow> int64 \<Rightarrow> int64
     \<Rightarrow> WmmaInsn option" where
  "select getOperationName elementTypeA elementTypeB waveSize mPerWave nPerWave =
     (if elementTypeA \<noteq> elementTypeB then None
      else if waveSize \<noteq> 32 then None
      else
        let inputLen' = (16 :: int64);
            outLen' = (8 :: int64);
            outStride' = (2 :: int64)
        in
        if rem64 mPerWave inputLen' \<noteq> 0 then None
        else if rem64 nPerWave inputLen' \<noteq> 0 then None
        else
          let mRepeats' = div64 mPerWave inputLen';
              nRepeats' = div64 nPerWave inputLen';
              argTypeA' = VectorType_get [inputLen'] elementTypeA;
              argTypeB' = VectorType_get [inputLen'] elementTypeB;
              retType' = VectorType_get [outLen'] (getRetType elementTypeA)
          in
          if isF16 elementTypeA then
            Some \<lparr>insn = getOperationName wmma_f32_16x16x16_f16,
                  inputLen = inputLen', outLen = outLen', outStride = outStride',
                  mRepeats = mRepeats', nRepeats = nRepeats',
                  argTypeA = argTypeA', argTypeB = argTypeB', retType = retType'\<rparr>
          else if isBF16 elementTypeA then
            Some \<lparr>insn = getOperationName wmma_f32_16x16x16_bf16,
                  inputLen = inputLen', outLen = outLen', outStride = outStride',
                  mRepeats = mRepeats', nRepeats = nRepeats',
                  argTypeA = argTypeA', argTypeB = argTypeB', retType = retType'\<rparr>
          else if isInteger elementTypeA 8 then
            Some \<lparr>insn = getOperationName wmma_i32_16x16x16_iu8,
                  inputLen = inputLen', outLen = outLen', outStride = outStride',
                  mRepeats = mRepeats', nRepeats = nRepeats',
                  argTypeA = argTypeA', argTypeB = argTypeB', retType = retType'\<rparr>
          else None)"

text \<open>
  The names the ROCDL dialect gives the three operations; \<open>select\<close> is run with them
  on concrete inputs.
\<close>

fun mnemonic :: "rocdl_op \<Rightarrow> string" where
  "mnemonic wmma_f32_16x16x16_f16 = ''rocdl.wmma.f32.16x16x16.f16''"
| "mnemonic wmma_f32_16x16x16_bf16 = ''rocdl.wmma.f32.16x16x16.bf16''"
| "mnemonic wmma_i32_16x16x16_iu8 = ''rocdl.wmma.i32.16x16x16.iu8''"

text \<open>
  The descriptor \<open>select\<close> returns for f16 operands and a 16 by 16 tile per wave.
\<close>

definition f16_insn :: WmmaInsn where
  "f16_insn =
     \<lparr>insn = mnemonic wmma_f32_16x16x16_f16, inputLen = 16, outLen = 8, outStride = 2,
      mRepeats = 1, nRepeats = 1,
      argTypeA = VectorType_get [16] Float16Type,
      argTypeB = VectorType_get [16] Float16Type,
      retType = VectorType_get [8] Float32Type\<rparr>"

section \<open>The C interface: split-K likelihood\<close>

datatype RocmlirTuningParamSetKind =
    RocmlirTuningParamSetKindQuick
  | RocmlirTuningParamSetKindFull
  | RocmlirTuningParamSetKindExhaustive

datatype RocmlirSplitKSelectionLikelihood = always | maybe | never

text \<open>
  \<open>rock::isSplitKFaster\<close>, the heuristic on the dimensions and the number of compute
  units, belongs to the tuning library and is the parameter \<open>isSplitKFaster\<close>.
\<close>

definition mlirIsSplitKFaster ::
  "(int64 \<Rightarrow> int64 \<Rightarrow> int64 \<Rightarrow> int64 \<Rightarrow> int64 \<Rightarrow> RocmlirSplitKSelectionLikelihood)
     \<Rightarrow> int64 \<Rightarrow> int64 \<Rightarrow> int64 \<Rightarrow> int64 \<Rightarrow> int64 \<Rightarrow> RocmlirTuningParamSetKind
     \<Rightarrow> RocmlirSplitKSelectionLikelihood" where
  "mlirIsSplitKFaster isSplitKFaster gDim mDim nDim kDim numCUs tuningLevel =
     (if tuningLevel = RocmlirTuningParamSetKindQuick then never
      else isSplitKFaster gDim mDim nDim kDim numCUs)"

section \<open>The C interface: strings written to a caller's buffer\<close>

text \<open>
  Memory is a store from addresses to bytes, so that a write past the end of a buffer is a
  write the model has, at an address outside the buffer. \<open>size_t\<close> values are natural
  numbers; \<open>(size_t)(-1)\<close> is \<open>SIZE_MAX\<close> of a 64-bit target.
\<close>

type_synonym addr = nat
type_synonym memory = "addr \<Rightarrow> char"

definition SIZE_MAX :: nat where
  "SIZE_MAX = 2 ^ 64 - 1"

text \<open>
  \<open>c_str()\<close> of a \<open>SmallString\<close> points at its bytes followed by a terminating zero byte;
  read as a C string it ends at the first zero byte.
\<close>

definition c_str :: "string \<Rightarrow> string" where
  "c_str s = takeWhile (\<lambda>c. c \<noteq> CHR 0x00) s"

text \<open>
  \<open>strncpy(dst, src, n)\<close> writes exactly \<open>n\<close> bytes at \<open>dst\<close>: the bytes of \<open>src\<close> before
  its terminator, then zero bytes once \<open>src\<close> has ended. The argument \<open>src\<close> holds the
  bytes before the terminator.
\<close>

fun strncpy :: "memory \<Rightarrow> addr \<Rightarrow> string \<Rightarrow> nat \<Rightarrow> memory" where
  "strncpy mem dst src 0 = mem"
| "strncpy mem dst [] (Suc n) = strncpy (mem(dst := CHR 0x00)) (Suc dst) [] n"
| "strncpy mem dst (c # cs) (Suc n) = strncpy (mem(dst := c)) (Suc dst) cs n"

text \<open>
  \<open>getPerfConfigStr\<close> (the canonical string of a candidate) and \<open>getTuningProblemStr\<close>
  (the workload signature, which can fail) belong to the tuning library and are
  parameters. Each function returns the memory after the call and its \<open>size_t\<close> result.
\<close>

definition mlirRockTuningParamToString ::
  "('p \<Rightarrow> string) \<Rightarrow> memory \<Rightarrow> 'p \<Rightarrow> addr \<Rightarrow> nat \<Rightarrow> memory \<times> nat" where
  "mlirRockTuningParamToString getPerfConfigStr mem param buf bufLen =
     (let perfConfig = getPerfConfigStr param
      in (strncpy mem buf (c_str perfConfig) bufLen, length perfConfig))"

definition mlirRockTuningGetKey ::
  "('m \<Rightarrow> string option) \<Rightarrow> memory \<Rightarrow> 'm \<Rightarrow> addr \<Rightarrow> nat \<Rightarrow> memory \<times> nat" where
  "mlirRockTuningGetKey getTuningProblemStr mem module buf bufLen =
     (case getTuningProblemStr module of
        None \<Rightarrow> (mem, SIZE_MAX)
      | Some perfStr \<Rightarrow> (strncpy mem buf (c_str perfStr) bufLen, length perfStr))"

section \<open>The C interface: prefill arguments\<close>

text \<open>
  A module is the list of its blocks, a block the list of its operations in the order
  \<open>walk\<close> visits them. An operation is an LLVM function or something else.
  \<open>rock::getStoredPrefillAttributes\<close> belongs to the Rock dialect and is a parameter.
\<close>

datatype 'f operation = LLVMFuncOp 'f | OtherOp

type_synonym 'f module = "'f operation list list"

record 'a PrefillAttr =
  getArgIndex :: nat
  getInitValue :: 'a

datatype 'a MlirAttribute = wrap 'a

datatype error = AssertionFailure

text \<open>\<open>mod.walk([&](LLVM::LLVMFuncOp op) { func = op; })\<close>: the last function visited stays.\<close>

fun walk :: "'f operation list \<Rightarrow> 'f option \<Rightarrow> 'f option" where
  "walk [] func = func"
| "walk (LLVMFuncOp op # ops) func = walk ops (Some op)"
| "walk (OtherOp # ops) func = walk ops func"

definition mlirGetNumPrefillArgs ::
  "('f \<Rightarrow> 'a PrefillAttr list) \<Rightarrow> 'f module \<Rightarrow> error + nat" where
  "mlirGetNumPrefillArgs getStoredPrefillAttributes mod' =
     (if length mod' \<noteq> 1 then Inl AssertionFailure
      else case walk (concat mod') None of
             None \<Rightarrow> Inr 0
           | Some func \<Rightarrow> Inr (length (getStoredPrefillAttributes func)))"

text \<open>
  The loop of \<open>mlirGetPrefillArgsInfo\<close>. The two caller-provided arrays are stores from
  positions to values: \<open>indices[i] = v\<close> is \<open>indices(i := v)\<close> at any position.
\<close>

function prefill_loop ::
  "'a PrefillAttr list \<Rightarrow> nat \<Rightarrow> nat \<Rightarrow> (nat \<Rightarrow> nat) \<Rightarrow> (nat \<Rightarrow> 'a MlirAttribute)
     \<Rightarrow> (nat \<Rightarrow> nat) \<times> (nat \<Rightarrow> 'a MlirAttribute)" where
  "prefill_loop attrs i len indices initValues =
     (if i < len
      then prefill_loop attrs (Suc i) len
             (indices(i := getArgIndex (attrs ! i)))
             (initValues(i := wrap (getInitValue (attrs ! i))))
      else (indices, initValues))"
  by pat_completeness auto
termination
  by (relation "measure (\<lambda>(attrs, i, len, indices, initValues). len - i)") auto

declare prefill_loop.simps [simp del]

definition mlirGetPrefillArgsInfo ::
  "('f \<Rightarrow> 'a PrefillAttr list) \<Rightarrow> 'f module \<Rightarrow> (nat \<Rightarrow> nat) \<Rightarrow> (nat \<Rightarrow> 'a MlirAttribute)
     \<Rightarrow> nat \<Rightarrow> error + (nat \<Rightarrow> nat) \<times> (nat \<Rightarrow> 'a MlirAttribute)" where
  "mlirGetPrefillArgsInfo getStoredPrefillAttributes mod' indices initValues len =
     (if length mod' \<noteq> 1 then Inl AssertionFailure
      else case walk (concat mod') None of
             None \<Rightarrow> Inr (indices, initValues)
           | Some func \<Rightarrow>
               (let attrs = getStoredPrefillAttributes func
                in if \<not> (length attrs \<ge> len) then Inl AssertionFailure
                   else Inr (prefill_loop attrs 0 len indices initValues)))"

text \<open>A memory filled with one byte, to run the functions on.\<close>

definition ex_mem :: memory where
  "ex_mem = (\<lambda>a. CHR ''#'')"

text \<open>A function with three stored prefill attributes, in a module with other operations.\<close>

definition ex_func :: "nat PrefillAttr list" where
  "ex_func = [\<lparr>getArgIndex = 2, getInitValue = 7\<rparr>,
              \<lparr>getArgIndex = 0, getInitValue = 9\<rparr>,
              \<lparr>getArgIndex = 5, getInitValue = 1\<rparr>]"

definition ex_ops :: "nat PrefillAttr list operation list" where
  "ex_ops = [OtherOp, LLVMFuncOp ex_func, OtherOp]"

section \<open>Signed division by the instruction tile length\<close>

lemma sint_word_of_int_64:
  "- (2 ^ 63) \<le> k \<Longrightarrow> k < 2 ^ 63 \<Longrightarrow> sint (word_of_int k :: int64) = k"
  by (simp add: sint_sbintrunc' signed_take_bit_int_eq_self)

lemma smod_16_eq_0_iff: "(k::int) smod 16 = 0 \<longleftrightarrow> 16 dvd k"
proof -
  have "k smod 16 = 0 \<longleftrightarrow> k = 0 \<or> \<bar>k\<bar> mod 16 = 0"
    by (simp add: signed_modulo_int_def sgn_if)
  also have "\<dots> \<longleftrightarrow> k = 0 \<or> 16 dvd \<bar>k\<bar>"
    by (simp only: dvd_eq_mod_eq_0)
  also have "\<dots> \<longleftrightarrow> 16 dvd k"
    by auto
  finally show ?thesis .
qed

lemma sint_rem64_16: "sint (rem64 x 16) = sint x smod 16"
proof -
  have "sint x smod 16 \<in> {- \<bar>16\<bar> + 1..\<bar>16\<bar> - 1}" by (rule smod_int_range) simp
  then have "- (2 ^ 63) \<le> sint x smod 16" and "sint x smod 16 < 2 ^ 63" by simp_all
  then show ?thesis
    unfolding rem64_def by (simp add: sint_word_of_int_64)
qed

lemma rem64_16_eq_0_iff: "rem64 x 16 = 0 \<longleftrightarrow> 16 dvd sint x"
proof -
  have "rem64 x 16 = 0 \<longleftrightarrow> sint (rem64 x 16) = 0"
    by (metis sint_0 signed_eq_0_iff)
  then show ?thesis by (simp add: sint_rem64_16 smod_16_eq_0_iff)
qed

lemma sdiv_16_bounds:
  assumes "- (2 ^ 63) \<le> (k::int)" and "k < 2 ^ 63"
  shows "- (2 ^ 63) \<le> k sdiv 16" and "k sdiv 16 < 2 ^ 63"
proof -
  have "\<bar>k\<bar> \<le> 2 ^ 63" using assms by (simp add: abs_if)
  then have "\<bar>k\<bar> div 16 \<le> 2 ^ 63 div 16" by (rule zdiv_mono1) simp
  then have q: "\<bar>k\<bar> div 16 < 2 ^ 63" by simp
  have "\<bar>k sdiv 16\<bar> = \<bar>sgn k\<bar> * (\<bar>k\<bar> div 16)"
    by (simp add: signed_divide_int_def abs_mult)
  also have "\<dots> \<le> \<bar>k\<bar> div 16" by (simp add: abs_sgn_eq)
  finally have "\<bar>k sdiv 16\<bar> < 2 ^ 63" using q by linarith
  then show "- (2 ^ 63) \<le> k sdiv 16" and "k sdiv 16 < 2 ^ 63" by linarith+
qed

lemma sint_div64_16: "sint (div64 x 16) = sint x sdiv 16"
proof -
  have b: "- (2 ^ 63) \<le> sint x" "sint x < 2 ^ 63"
    using sint_ge [of x] sint_lt [of x] by simp_all
  show ?thesis
    unfolding div64_def using sdiv_16_bounds [OF b] by (simp add: sint_word_of_int_64)
qed

lemma sdiv_16_exact: "16 dvd (k::int) \<Longrightarrow> k sdiv 16 = k div 16"
  by (simp add: signed_divide_int_eq_divide_int)

lemma sint_div64_16_exact: "16 dvd sint x \<Longrightarrow> sint (div64 x 16) = sint x div 16"
  by (simp add: sint_div64_16 sdiv_16_exact)


lemma select_None_iff:
  "select nm a b w m n = None \<longleftrightarrow>
     a \<noteq> b \<or> w \<noteq> 32 \<or> \<not> 16 dvd sint m \<or> \<not> 16 dvd sint n
       \<or> \<not> (isF16 a \<or> isBF16 a \<or> isInteger a 8)"
  by (simp add: select_def Let_def rem64_16_eq_0_iff)

lemma select_SomeD:
  assumes "select nm a b w m n = Some d"
  shows "d = \<lparr>insn = (if isF16 a then nm wmma_f32_16x16x16_f16
                      else if isBF16 a then nm wmma_f32_16x16x16_bf16
                      else nm wmma_i32_16x16x16_iu8),
               inputLen = 16, outLen = 8, outStride = 2,
               mRepeats = div64 m 16, nRepeats = div64 n 16,
               argTypeA = VectorType_get [16] a, argTypeB = VectorType_get [16] b,
               retType = VectorType_get [8] (getRetType a)\<rparr>"
  using assms by (simp add: select_def Let_def split: if_splits)

text \<open>
  C1. For equal operand element types on a supported path and wave size 32, \<open>select\<close>
  fails when \<open>mPerWave\<close> or \<open>nPerWave\<close> is not an exact multiple of 16, and otherwise
  returns a descriptor with \<open>mRepeats = mPerWave / 16\<close> and \<open>nRepeats = nPerWave / 16\<close>
  (the quotients are exact). \<open>select(f16, f16, 32, 24, 16)\<close> fails and
  \<open>select(f16, f16, 32, 32, 16)\<close> succeeds with \<open>mRepeats = 2\<close>, \<open>nRepeats = 1\<close>.
\<close>

theorem select_tile_multiple:
  assumes "isF16 t \<or> isBF16 t \<or> isInteger t 8"
  shows "(\<not> 16 dvd sint tileM \<or> \<not> 16 dvd sint tileN \<longrightarrow>
            select nm t t 32 tileM tileN = None)
       \<and> (16 dvd sint tileM \<and> 16 dvd sint tileN \<longrightarrow>
            (\<exists>d. select nm t t 32 tileM tileN = Some d
               \<and> sint (mRepeats d) = sint tileM div 16
               \<and> sint (nRepeats d) = sint tileN div 16))
       \<and> select nm Float16Type Float16Type 32 24 16 = None
       \<and> (\<exists>d. select nm Float16Type Float16Type 32 32 16 = Some d
               \<and> mRepeats d = 2 \<and> nRepeats d = 1)"
proof (intro conjI impI)
  assume "\<not> 16 dvd sint tileM \<or> \<not> 16 dvd sint tileN"
  then show "select nm t t 32 tileM tileN = None"
    by (auto simp add: select_None_iff)
next
  assume m: "16 dvd sint tileM \<and> 16 dvd sint tileN"
  with assms have "select nm t t 32 tileM tileN \<noteq> None"
    by (simp add: select_None_iff)
  then obtain d where d: "select nm t t 32 tileM tileN = Some d" by blast
  from select_SomeD [OF d] m
  have "sint (mRepeats d) = sint tileM div 16" "sint (nRepeats d) = sint tileN div 16"
    by (simp_all add: sint_div64_16_exact)
  with d show "\<exists>d. select nm t t 32 tileM tileN = Some d
      \<and> sint (mRepeats d) = sint tileM div 16 \<and> sint (nRepeats d) = sint tileN div 16"
    by simp
next
  show "select nm Float16Type Float16Type 32 24 16 = None"
    by (simp add: select_None_iff)
next
  have "select nm Float16Type Float16Type 32 32 16 \<noteq> None"
    by (simp add: select_None_iff)
  then obtain d where d: "select nm Float16Type Float16Type 32 32 16 = Some d" by blast
  from select_SomeD [OF d] have "mRepeats d = 2" "nRepeats d = 1"
    by (simp_all add: div64_def)
  with d show "\<exists>d. select nm Float16Type Float16Type 32 32 16 = Some d
      \<and> mRepeats d = 2 \<and> nRepeats d = 1" by simp
qed

theorem select_tile_multiple_witness:
  "select mnemonic Float16Type Float16Type 32 24 16 = None
   \<and> select mnemonic BFloat16Type BFloat16Type 32 16 (- 8) = None
   \<and> (\<exists>d. select mnemonic (IntegerType 8 Signless) (IntegerType 8 Signless) 32 64 48 = Some d
         \<and> sint (mRepeats d) = 4 \<and> sint (nRepeats d) = 3)"
  using select_tile_multiple [of Float16Type 24 16 mnemonic]
    select_tile_multiple [of BFloat16Type 16 "- 8" mnemonic]
    select_tile_multiple [of "IntegerType 8 Signless" 64 48 mnemonic]
  by simp

text \<open>
  C2. \<open>select\<close> fails whenever the two operand element types differ, or the wave size is
  not 32, whatever the tile sizes; \<open>select(f16, bf16, 32, 64, 64)\<close> fails.
\<close>

theorem select_rejects_mismatch:
  "(elementTypeA \<noteq> elementTypeB \<or> waveSize \<noteq> 32 \<longrightarrow>
      select nm elementTypeA elementTypeB waveSize tileM tileN = None)
   \<and> select nm Float16Type BFloat16Type 32 64 64 = None"
  by (auto simp add: select_None_iff)

theorem select_rejects_mismatch_witness:
  "select mnemonic Float16Type BFloat16Type 32 64 64 = None
   \<and> select mnemonic Float16Type Float16Type 64 64 64 = None"
  using select_rejects_mismatch [of Float16Type BFloat16Type 32 mnemonic 64 64]
    select_rejects_mismatch [of Float16Type Float16Type 64 mnemonic 64 64]
  by simp

text \<open>
  C3. When \<open>select\<close> succeeds, the operand element types are equal and on one of three
  paths (f16, bf16, 8-bit integer); the instruction is the one of that path, and the result
  element type is the 32-bit integer for 8-bit-integer operands and the 32-bit float on the
  other two paths. For any other element type, such as f32, \<open>select\<close> fails.
\<close>

theorem select_insn_by_type:
  "(select nm a b w m n = Some d \<longrightarrow>
      a = b
      \<and> (isF16 a \<or> isBF16 a \<or> isInteger a 8)
      \<and> insn d = (if isF16 a then nm wmma_f32_16x16x16_f16
                   else if isBF16 a then nm wmma_f32_16x16x16_bf16
                   else nm wmma_i32_16x16x16_iu8)
      \<and> elementType (retType d) =
            (if isInteger a 8 then IntegerType 32 Signless else Float32Type))
   \<and> (\<not> (isF16 a \<or> isBF16 a \<or> isInteger a 8) \<longrightarrow> select nm a b w m n = None)
   \<and> select nm Float32Type Float32Type 32 16 16 = None"
proof (intro conjI impI)
  assume d: "select nm a b w m n = Some d"
  then have "select nm a b w m n \<noteq> None" by simp
  then show "a = b" and "isF16 a \<or> isBF16 a \<or> isInteger a 8"
    by (simp_all add: select_None_iff)
  from select_SomeD [OF d]
  show "insn d = (if isF16 a then nm wmma_f32_16x16x16_f16
                   else if isBF16 a then nm wmma_f32_16x16x16_bf16
                   else nm wmma_i32_16x16x16_iu8)"
    by simp
  from select_SomeD [OF d]
  show "elementType (retType d) =
            (if isInteger a 8 then IntegerType 32 Signless else Float32Type)"
    by (simp add: VectorType_get_def getRetType_def getI32Type_def getF32Type_def)
next
  assume "\<not> (isF16 a \<or> isBF16 a \<or> isInteger a 8)"
  then show "select nm a b w m n = None" by (simp add: select_None_iff)
next
  show "select nm Float32Type Float32Type 32 16 16 = None"
    by (simp add: select_None_iff)
qed

theorem select_insn_by_type_witness:
  "(\<exists>d. select mnemonic Float16Type Float16Type 32 32 16 = Some d
       \<and> insn d = ''rocdl.wmma.f32.16x16x16.f16'' \<and> elementType (retType d) = Float32Type)
   \<and> (\<exists>d. select mnemonic BFloat16Type BFloat16Type 32 16 16 = Some d
       \<and> insn d = ''rocdl.wmma.f32.16x16x16.bf16'' \<and> elementType (retType d) = Float32Type)
   \<and> (\<exists>d. select mnemonic (IntegerType 8 Unsigned) (IntegerType 8 Unsigned) 32 (- 32) 0 = Some d
       \<and> insn d = ''rocdl.wmma.i32.16x16x16.iu8''
       \<and> elementType (retType d) = IntegerType 32 Signless)
   \<and> select mnemonic Float32Type Float32Type 32 16 16 = None"
proof (intro conjI)
  have "select mnemonic Float16Type Float16Type 32 32 16 \<noteq> None"
    by (simp add: select_None_iff)
  then obtain d where d: "select mnemonic Float16Type Float16Type 32 32 16 = Some d" by blast
  with select_insn_by_type [of mnemonic Float16Type Float16Type 32 32 16 d]
  have "insn d = ''rocdl.wmma.f32.16x16x16.f16'' \<and> elementType (retType d) = Float32Type"
    by simp
  with d show "\<exists>d. select mnemonic Float16Type Float16Type 32 32 16 = Some d
       \<and> insn d = ''rocdl.wmma.f32.16x16x16.f16'' \<and> elementType (retType d) = Float32Type"
    by blast
next
  have "select mnemonic BFloat16Type BFloat16Type 32 16 16 \<noteq> None"
    by (simp add: select_None_iff)
  then obtain d where d: "select mnemonic BFloat16Type BFloat16Type 32 16 16 = Some d" by blast
  with select_insn_by_type [of mnemonic BFloat16Type BFloat16Type 32 16 16 d]
  have "insn d = ''rocdl.wmma.f32.16x16x16.bf16'' \<and> elementType (retType d) = Float32Type"
    by simp
  with d show "\<exists>d. select mnemonic BFloat16Type BFloat16Type 32 16 16 = Some d
       \<and> insn d = ''rocdl.wmma.f32.16x16x16.bf16'' \<and> elementType (retType d) = Float32Type"
    by blast
next
  let ?t = "IntegerType 8 Unsigned"
  have "select mnemonic ?t ?t 32 (- 32) 0 \<noteq> None"
    by (simp add: select_None_iff)
  then obtain d where d: "select mnemonic ?t ?t 32 (- 32) 0 = Some d" by blast
  with select_insn_by_type [of mnemonic ?t ?t 32 "- 32" 0 d]
  have "insn d = ''rocdl.wmma.i32.16x16x16.iu8''
      \<and> elementType (retType d) = IntegerType 32 Signless"
    by simp
  with d show "\<exists>d. select mnemonic ?t ?t 32 (- 32) 0 = Some d
       \<and> insn d = ''rocdl.wmma.i32.16x16x16.iu8''
       \<and> elementType (retType d) = IntegerType 32 Signless"
    by blast
next
  show "select mnemonic Float32Type Float32Type 32 16 16 = None"
    using select_insn_by_type [of mnemonic Float32Type Float32Type 32 16 16] by simp
qed


text \<open>
  C8. \<open>select\<close> does not ask for positive tile sizes: for equal supported element types
  and wave size 32, every \<open>mPerWave\<close> and \<open>nPerWave\<close> that is a multiple of 16, zero and
  negative values included, is accepted, and the descriptor carries the zero or negative
  quotients \<open>mPerWave / 16\<close> and \<open>nPerWave / 16\<close>; \<open>select(f16, f16, 32, 0, 16)\<close> succeeds
  with \<open>mRepeats = 0\<close>.
\<close>

theorem select_accepts_nonpositive_tiles:
  assumes "isF16 t \<or> isBF16 t \<or> isInteger t 8"
    and "16 dvd sint tileM" and "16 dvd sint tileN"
  shows "(\<exists>d. select nm t t 32 tileM tileN = Some d
            \<and> sint (mRepeats d) = sint tileM div 16
            \<and> sint (nRepeats d) = sint tileN div 16
            \<and> (sint tileM \<le> 0 \<longrightarrow> sint (mRepeats d) \<le> 0)
            \<and> (sint tileM < 0 \<longrightarrow> sint (mRepeats d) < 0)
            \<and> (sint tileN \<le> 0 \<longrightarrow> sint (nRepeats d) \<le> 0)
            \<and> (sint tileN < 0 \<longrightarrow> sint (nRepeats d) < 0))
       \<and> (\<exists>d. select nm Float16Type Float16Type 32 0 16 = Some d \<and> mRepeats d = 0)"
proof (rule conjI)
  from assms have "select nm t t 32 tileM tileN \<noteq> None"
    by (simp add: select_None_iff)
  then obtain d where d: "select nm t t 32 tileM tileN = Some d" by blast
  from select_SomeD [OF d] assms(2,3)
  have r: "sint (mRepeats d) = sint tileM div 16" "sint (nRepeats d) = sint tileN div 16"
    by (simp_all add: sint_div64_16_exact)
  have "sint tileM \<le> 0 \<longrightarrow> sint (mRepeats d) \<le> 0"
    and "sint tileM < 0 \<longrightarrow> sint (mRepeats d) < 0"
    and "sint tileN \<le> 0 \<longrightarrow> sint (nRepeats d) \<le> 0"
    and "sint tileN < 0 \<longrightarrow> sint (nRepeats d) < 0"
    unfolding r by linarith+
  with d r show "\<exists>d. select nm t t 32 tileM tileN = Some d
            \<and> sint (mRepeats d) = sint tileM div 16
            \<and> sint (nRepeats d) = sint tileN div 16
            \<and> (sint tileM \<le> 0 \<longrightarrow> sint (mRepeats d) \<le> 0)
            \<and> (sint tileM < 0 \<longrightarrow> sint (mRepeats d) < 0)
            \<and> (sint tileN \<le> 0 \<longrightarrow> sint (nRepeats d) \<le> 0)
            \<and> (sint tileN < 0 \<longrightarrow> sint (nRepeats d) < 0)"
    by blast
next
  have "select nm Float16Type Float16Type 32 0 16 \<noteq> None"
    by (simp add: select_None_iff)
  then obtain d where d: "select nm Float16Type Float16Type 32 0 16 = Some d" by blast
  from select_SomeD [OF d] have "mRepeats d = 0" by (simp add: div64_def)
  with d show "\<exists>d. select nm Float16Type Float16Type 32 0 16 = Some d \<and> mRepeats d = 0"
    by blast
qed

theorem select_accepts_nonpositive_tiles_witness:
  "\<exists>d. select mnemonic BFloat16Type BFloat16Type 32 (- 32) 0 = Some d
      \<and> sint (mRepeats d) = - 2 \<and> sint (nRepeats d) = 0"
proof -
  have h: "isF16 BFloat16Type \<or> isBF16 BFloat16Type \<or> isInteger BFloat16Type 8"
    "16 dvd sint (- 32 :: int64)" "16 dvd sint (0 :: int64)"
    by simp_all
  from select_accepts_nonpositive_tiles [OF h, of mnemonic]
  show ?thesis by auto
qed

text \<open>
  C9. Every descriptor \<open>select\<close> returns has the same geometry, whatever the tile shape:
  \<open>inputLen = 16\<close>, \<open>outLen = 8\<close>, \<open>outStride = 2\<close>, operand vectors of length 16 over
  the operand element types, and a result vector of length 8 over the accumulator type.
\<close>

theorem select_fixed_geometry:
  assumes "select nm a b w m n = Some d"
  shows "inputLen d = 16 \<and> outLen d = 8 \<and> outStride d = 2
       \<and> shape (argTypeA d) = [16] \<and> elementType (argTypeA d) = a
       \<and> shape (argTypeB d) = [16] \<and> elementType (argTypeB d) = b
       \<and> shape (retType d) = [8]
       \<and> elementType (retType d) =
            (if isInteger a 8 then IntegerType 32 Signless else Float32Type)"
  using select_SomeD [OF assms]
  by (simp add: VectorType_get_def getRetType_def getI32Type_def getF32Type_def)

theorem select_fixed_geometry_witness:
  "\<exists>d. select mnemonic (IntegerType 8 Signless) (IntegerType 8 Signless) 32 64 (- 48) = Some d
      \<and> inputLen d = 16 \<and> outLen d = 8 \<and> outStride d = 2
      \<and> argTypeA d = \<lparr>shape = [16], elementType = IntegerType 8 Signless\<rparr>
      \<and> argTypeB d = \<lparr>shape = [16], elementType = IntegerType 8 Signless\<rparr>
      \<and> retType d = \<lparr>shape = [8], elementType = IntegerType 32 Signless\<rparr>"
proof -
  let ?t = "IntegerType 8 Signless"
  have "select mnemonic ?t ?t 32 64 (- 48) \<noteq> None"
    by (simp add: select_None_iff)
  then obtain d where d: "select mnemonic ?t ?t 32 64 (- 48) = Some d" by blast
  from select_fixed_geometry [OF d] d show ?thesis by simp
qed

section \<open>The coherence check and the split-K gate\<close>

lemma sint_mult_64:
  assumes "- (2 ^ 63) \<le> sint a * sint b" and "sint a * sint b < 2 ^ 63"
  shows "sint (a * b :: int64) = sint a * sint b"
  using assms by (simp add: sint_word_ariths signed_take_bit_int_eq_self)

text \<open>
  C4. For all \<open>int64_t\<close> values \<open>kpack\<close> and \<open>kPerBlock\<close> whose exact product fits
  \<open>int64_t\<close>, \<open>isCoherentWithK(d, kpack, kPerBlock)\<close> is true if and only if that product
  is at least \<open>d.inputLen\<close>. With \<open>inputLen = 16\<close> the result is true for a product of 16
  and false for a product of 15, and false for \<open>kpack = 2\<close>, \<open>kPerBlock = 4\<close>.
\<close>

theorem isCoherentWithK_exact:
  assumes "- (2 ^ 63) \<le> sint kPerBlock * sint kpack"
    and "sint kPerBlock * sint kpack < 2 ^ 63"
  shows "(isCoherentWithK d kpack kPerBlock \<longleftrightarrow>
            sint (inputLen d) \<le> sint kPerBlock * sint kpack)
       \<and> (inputLen d = 16 \<and> sint kPerBlock * sint kpack = 16 \<longrightarrow>
            isCoherentWithK d kpack kPerBlock)
       \<and> (inputLen d = 16 \<and> sint kPerBlock * sint kpack = 15 \<longrightarrow>
            \<not> isCoherentWithK d kpack kPerBlock)
       \<and> (inputLen d = 16 \<longrightarrow> \<not> isCoherentWithK d 2 4)"
proof -
  have e: "isCoherentWithK d kpack kPerBlock \<longleftrightarrow>
           sint (inputLen d) \<le> sint kPerBlock * sint kpack"
    using assms by (auto simp add: isCoherentWithK_def word_sless_alt sint_mult_64)
  have p16: "isCoherentWithK d kpack kPerBlock"
    if "inputLen d = 16" "sint kPerBlock * sint kpack = 16"
    using that e by simp
  have p15: "\<not> isCoherentWithK d kpack kPerBlock"
    if "inputLen d = 16" "sint kPerBlock * sint kpack = 15"
    using that e by simp
  have p8: "\<not> isCoherentWithK d 2 4" if "inputLen d = 16"
    using that by (simp add: isCoherentWithK_def)
  from e p16 p15 p8 show ?thesis by blast
qed

theorem isCoherentWithK_exact_witness:
  "isCoherentWithK f16_insn 4 4 \<and> isCoherentWithK f16_insn 1 16
   \<and> \<not> isCoherentWithK f16_insn 3 5 \<and> \<not> isCoherentWithK f16_insn 2 4
   \<and> isCoherentWithK f16_insn (- 4) (- 8)"
proof -
  have r: "- (2 ^ 63) \<le> sint (4 :: int64) * sint (4 :: int64)"
      "sint (4 :: int64) * sint (4 :: int64) < 2 ^ 63"
      "- (2 ^ 63) \<le> sint (16 :: int64) * sint (1 :: int64)"
      "sint (16 :: int64) * sint (1 :: int64) < 2 ^ 63"
      "- (2 ^ 63) \<le> sint (5 :: int64) * sint (3 :: int64)"
      "sint (5 :: int64) * sint (3 :: int64) < 2 ^ 63"
      "- (2 ^ 63) \<le> sint (4 :: int64) * sint (2 :: int64)"
      "sint (4 :: int64) * sint (2 :: int64) < 2 ^ 63"
      "- (2 ^ 63) \<le> sint (- 8 :: int64) * sint (- 4 :: int64)"
      "sint (- 8 :: int64) * sint (- 4 :: int64) < 2 ^ 63"
    by simp_all
  from isCoherentWithK_exact [OF r(1,2), of f16_insn]
    isCoherentWithK_exact [OF r(3,4), of f16_insn]
    isCoherentWithK_exact [OF r(5,6), of f16_insn]
    isCoherentWithK_exact [OF r(7,8), of f16_insn]
    isCoherentWithK_exact [OF r(9,10), of f16_insn]
  show ?thesis by (simp add: f16_insn_def)
qed

text \<open>
  Without the bound the equivalence fails: for \<open>kpack = kPerBlock = 2^32\<close> the exact
  product \<open>2^64\<close> is above \<open>inputLen = 16\<close>, the \<open>int64_t\<close> product is 0, and the result is
  false.
\<close>

theorem isCoherentWithK_overflow_counterexample:
  "\<not> (isCoherentWithK f16_insn 4294967296 4294967296 \<longleftrightarrow>
        sint (inputLen f16_insn) \<le> sint (4294967296 :: int64) * sint (4294967296 :: int64))"
  by (simp add: isCoherentWithK_def f16_insn_def)

text \<open>
  C5. At the Quick tuning level the split-K likelihood is \<open>never\<close> for all dimensions
  and any number of compute units, whatever the dimension-based heuristic would answer.
\<close>

theorem mlirIsSplitKFaster_Quick:
  "mlirIsSplitKFaster isSplitKFaster gDim mDim nDim kDim numCUs RocmlirTuningParamSetKindQuick
     = never"
  by (simp add: mlirIsSplitKFaster_def)

section \<open>The buffer contract\<close>

lemma strncpy_frame:
  "a < dst \<or> dst + n \<le> a \<Longrightarrow> strncpy mem dst src n a = mem a"
  by (induction mem dst src n rule: strncpy.induct) auto

lemma strncpy_content:
  "i < n \<Longrightarrow> strncpy mem dst src n (dst + i) =
     (if i < length src then src ! i else CHR 0x00)"
proof (induction mem dst src n arbitrary: i rule: strncpy.induct)
  case (1 mem dst src)
  then show ?case by simp
next
  case (2 mem dst n)
  show ?case
  proof (cases i)
    case 0
    then show ?thesis by (simp add: strncpy_frame)
  next
    case (Suc j)
    with 2(2) have "j < n" by simp
    from 2(1) [OF this] Suc show ?thesis by (simp add: fun_upd_def)
  qed
next
  case (3 mem dst c cs n)
  show ?case
  proof (cases i)
    case 0
    then show ?thesis by (simp add: strncpy_frame)
  next
    case (Suc j)
    with 3(2) have "j < n" by simp
    from 3(1) [OF this] Suc show ?thesis by (simp add: fun_upd_def)
  qed
qed

text \<open>
  C6. Serialising a candidate to a caller's buffer of capacity \<open>bufLen\<close> returns the length
  of the whole perf-config string, also when it exceeds \<open>bufLen\<close>; no byte outside the
  \<open>bufLen\<close> bytes at \<open>buf\<close> changes, and those bytes are the start of the string, then zero
  bytes. The workload-signature query does the same when the signature is produced.
\<close>

theorem serialize_buffer_contract:
  "snd (mlirRockTuningParamToString getPerfConfigStr mem param buf bufLen)
     = length (getPerfConfigStr param)
   \<and> (\<forall>a. a < buf \<or> buf + bufLen \<le> a \<longrightarrow>
         fst (mlirRockTuningParamToString getPerfConfigStr mem param buf bufLen) a = mem a)
   \<and> (\<forall>i < bufLen.
         fst (mlirRockTuningParamToString getPerfConfigStr mem param buf bufLen) (buf + i) =
           (if i < length (c_str (getPerfConfigStr param))
            then c_str (getPerfConfigStr param) ! i else CHR 0x00))
   \<and> (\<forall>perfStr. getTuningProblemStr module = Some perfStr \<longrightarrow>
         snd (mlirRockTuningGetKey getTuningProblemStr mem module buf bufLen) = length perfStr
         \<and> (\<forall>a. a < buf \<or> buf + bufLen \<le> a \<longrightarrow>
               fst (mlirRockTuningGetKey getTuningProblemStr mem module buf bufLen) a = mem a)
         \<and> (\<forall>i < bufLen.
               fst (mlirRockTuningGetKey getTuningProblemStr mem module buf bufLen) (buf + i) =
                 (if i < length (c_str perfStr) then c_str perfStr ! i else CHR 0x00)))"
  by (simp add: mlirRockTuningParamToString_def mlirRockTuningGetKey_def Let_def
      strncpy_frame strncpy_content)

theorem serialize_buffer_contract_witness:
  "snd (mlirRockTuningParamToString (\<lambda>p. p) ex_mem ''v2:16,16'' 10 4) = 8
   \<and> fst (mlirRockTuningParamToString (\<lambda>p. p) ex_mem ''v2:16,16'' 10 4) 9 = CHR ''#''
   \<and> fst (mlirRockTuningParamToString (\<lambda>p. p) ex_mem ''v2:16,16'' 10 4) 14 = CHR ''#''
   \<and> fst (mlirRockTuningParamToString (\<lambda>p. p) ex_mem ''v2:16,16'' 10 4) 13 = CHR ''1''
   \<and> snd (mlirRockTuningGetKey (\<lambda>m. Some m) ex_mem ''gfx'' 10 4) = 3
   \<and> fst (mlirRockTuningGetKey (\<lambda>m. Some m) ex_mem ''gfx'' 10 4) 14 = CHR ''#''
   \<and> fst (mlirRockTuningGetKey (\<lambda>m. Some m) ex_mem ''gfx'' 10 4) 13 = CHR 0x00"
proof -
  let ?P = "mlirRockTuningParamToString (\<lambda>p. p) ex_mem ''v2:16,16'' 10 4"
  let ?K = "mlirRockTuningGetKey (\<lambda>m. Some m) ex_mem ''gfx'' 10 4"
  note t = serialize_buffer_contract [of "\<lambda>p. p" ex_mem "''v2:16,16''" 10 4
      "\<lambda>m. Some m" "''gfx''"]
  from t have 1: "snd ?P = length ''v2:16,16''"
    by blast
  from t have f: "a < 10 \<or> 10 + 4 \<le> a \<Longrightarrow> fst ?P a = ex_mem a" for a
    by blast
  from t have c: "i < 4 \<Longrightarrow> fst ?P (10 + i) =
        (if i < length (c_str ''v2:16,16'') then c_str ''v2:16,16'' ! i else CHR 0x00)" for i
    by blast
  from t have k: "snd ?K = length ''gfx''"
    by blast
  from t have kf: "a < 10 \<or> 10 + 4 \<le> a \<Longrightarrow> fst ?K a = ex_mem a" for a
    by blast
  from t have kc: "i < 4 \<Longrightarrow> fst ?K (10 + i) =
        (if i < length (c_str ''gfx'') then c_str ''gfx'' ! i else CHR 0x00)" for i
    by blast
  show ?thesis
    using 1 f [of 9] f [of 14] c [of 3] k kf [of 14] kc [of 3]
    by (simp add: ex_mem_def c_str_def)
qed

section \<open>The prefill queries\<close>

lemma prefill_loop_spec:
  "prefill_loop attrs i len indices initValues =
     (\<lambda>j. if i \<le> j \<and> j < len then getArgIndex (attrs ! j) else indices j,
      \<lambda>j. if i \<le> j \<and> j < len then wrap (getInitValue (attrs ! j)) else initValues j)"
proof (induction attrs i len indices initValues rule: prefill_loop.induct)
  case (1 attrs i len indices initValues)
  show ?case
  proof (cases "i < len")
    case True
    with 1 show ?thesis
      by (subst prefill_loop.simps) (auto simp add: fun_eq_iff fun_upd_def)
  next
    case False
    then show ?thesis
      by (subst prefill_loop.simps) (auto simp add: fun_eq_iff)
  qed
qed

text \<open>
  C7. For a module whose function \<open>func\<close> (the one the walk finds) carries stored prefill
  attributes, and a declared array length not above the count the prefill-count query
  returns: the prefill-info query returns, the first \<open>len\<close> entries of the two arrays are
  the argument index and the wrapped initial value of the stored attributes, in order, and
  every position from \<open>len\<close> on is as it was.
\<close>

theorem prefill_info_fills_prefix:
  assumes "walk ops None = Some func"
    and "mlirGetNumPrefillArgs getStoredPrefillAttributes [ops] = Inr count"
    and "len \<le> count"
  shows "\<exists>indices' initValues'.
           mlirGetPrefillArgsInfo getStoredPrefillAttributes [ops] indices initValues len
             = Inr (indices', initValues')
           \<and> (\<forall>i < len.
                 indices' i = getArgIndex (getStoredPrefillAttributes func ! i)
                 \<and> initValues' i = wrap (getInitValue (getStoredPrefillAttributes func ! i)))
           \<and> (\<forall>i \<ge> len. indices' i = indices i \<and> initValues' i = initValues i)"
  using assms
  by (simp add: mlirGetNumPrefillArgs_def mlirGetPrefillArgsInfo_def Let_def
      prefill_loop_spec)

theorem prefill_info_fills_prefix_witness:
  "\<exists>indices' initValues'.
     mlirGetPrefillArgsInfo (\<lambda>f. f) [ex_ops] (\<lambda>i. 100) (\<lambda>i. wrap 0) 2
       = Inr (indices', initValues')
     \<and> indices' 0 = 2 \<and> initValues' 0 = wrap 7
     \<and> indices' 1 = 0 \<and> initValues' 1 = wrap 9
     \<and> indices' 2 = 100 \<and> initValues' 2 = wrap 0"
proof -
  have w: "walk ex_ops None = Some ex_func" by (simp add: ex_ops_def)
  have c: "mlirGetNumPrefillArgs (\<lambda>f. f) [ex_ops] = Inr (3::nat)"
    by (simp add: mlirGetNumPrefillArgs_def ex_ops_def ex_func_def)
  have l: "(2::nat) \<le> 3" by simp
  from prefill_info_fills_prefix [OF w c l, of "\<lambda>i. 100" "\<lambda>i. wrap 0"]
  obtain ind iv where r:
    "mlirGetPrefillArgsInfo (\<lambda>f. f) [ex_ops] (\<lambda>i. 100) (\<lambda>i. wrap 0) 2 = Inr (ind, iv)"
    "\<forall>i < 2. ind i = getArgIndex (ex_func ! i) \<and> iv i = wrap (getInitValue (ex_func ! i))"
    "\<forall>i \<ge> 2. ind i = 100 \<and> iv i = wrap 0"
    by blast
  from r(2) have "ind 0 = 2 \<and> iv 0 = wrap 7 \<and> ind 1 = 0 \<and> iv 1 = wrap 9"
    by (simp add: ex_func_def)
  moreover from r(3) have "ind 2 = 100 \<and> iv 2 = wrap 0" by simp
  ultimately show ?thesis using r(1) by blast
qed

lemma walk_None_iff: "walk ops func = None \<longleftrightarrow> func = None \<and> (\<forall>f. LLVMFuncOp f \<notin> set ops)"
  by (induction ops func rule: walk.induct) auto

text \<open>
  C10. If the module contains no LLVM function, the prefill-count query returns 0 and the
  prefill-info query returns with both caller-provided arrays as they were, for every
  declared array length.
\<close>

theorem prefill_no_function:
  assumes "\<forall>f. LLVMFuncOp f \<notin> set ops"
  shows "mlirGetNumPrefillArgs getStoredPrefillAttributes [ops] = Inr 0
       \<and> mlirGetPrefillArgsInfo getStoredPrefillAttributes [ops] indices initValues len
           = Inr (indices, initValues)"
proof -
  from assms have "walk ops None = None" by (simp add: walk_None_iff)
  then show ?thesis by (simp add: mlirGetNumPrefillArgs_def mlirGetPrefillArgsInfo_def)
qed

theorem prefill_no_function_witness:
  "mlirGetNumPrefillArgs (\<lambda>f :: nat PrefillAttr list. f) [[OtherOp, OtherOp]] = Inr 0
   \<and> mlirGetPrefillArgsInfo (\<lambda>f. f) [[OtherOp, OtherOp]] (\<lambda>i. 100) (\<lambda>i. wrap (0::nat)) 5
       = Inr (\<lambda>i. 100, \<lambda>i. wrap 0)"
proof -
  have w: "\<forall>f. LLVMFuncOp f \<notin> set [OtherOp, OtherOp :: nat PrefillAttr list operation]"
    by simp
  from prefill_no_function [OF w, of "\<lambda>f. f" "\<lambda>i. 100" "\<lambda>i. wrap 0" 5]
  show ?thesis by simp
qed

end
